theory Spec2Isabelle
  imports Main
begin

section \<open>Python values\<close>

text \<open>
  A Python \<open>str\<close> is a sequence of Unicode code points; \<open>len\<close>, slicing and
  \<open>strip\<close> count code points. A string is therefore a list of code points, and
  \<open>ascii\<close> turns an ASCII literal into one.
\<close>

type_synonym pystr = "nat list"

definition ascii :: "string \<Rightarrow> pystr" where
  "ascii cs = map of_char cs"

text \<open>
  The characters for which \<open>str.isspace\<close> holds; \<open>str.strip()\<close> without an
  argument removes them from both ends.
\<close>

definition is_space :: "nat \<Rightarrow> bool" where
  "is_space c \<longleftrightarrow>
     (9 \<le> c \<and> c \<le> 13) \<or> (28 \<le> c \<and> c \<le> 32) \<or> c = 133 \<or> c = 160 \<or> c = 5760 \<or>
     (8192 \<le> c \<and> c \<le> 8202) \<or> c = 8232 \<or> c = 8233 \<or> c = 8239 \<or> c = 8287 \<or>
     c = 12288"

definition strip :: "pystr \<Rightarrow> pystr" where
  "strip t = rev (dropWhile is_space (rev (dropWhile is_space t)))"

definition startswith :: "pystr \<Rightarrow> pystr \<Rightarrow> bool" where
  "startswith t p \<longleftrightarrow> take (length p) t = p"

text \<open>
  A slice \<open>xs[start:stop]\<close> with step 1. A missing bound is \<open>None\<close>; a negative bound
  counts from the end; both bounds are clamped to the sequence.
\<close>

definition slice_bound :: "nat \<Rightarrow> int \<Rightarrow> nat" where
  "slice_bound n i = (if i < 0 then nat (int n + i) else min (nat i) n)"

definition slice :: "'a list \<Rightarrow> int option \<Rightarrow> int option \<Rightarrow> 'a list" where
  "slice xs start stop =
     (let n = length xs;
          lo = (case start of None \<Rightarrow> 0 | Some i \<Rightarrow> slice_bound n i);
          hi = (case stop of None \<Rightarrow> n | Some j \<Rightarrow> slice_bound n j)
      in take (hi - lo) (drop lo xs))"

text \<open>
  An exception is an instance of a subclass of \<open>Exception\<close>: the name of its class and
  the text \<open>str(e)\<close>. These are what \<open>except Exception\<close> catches. A computation that
  may raise returns \<open>Inl\<close> of the exception.
\<close>

datatype pyexc = PyExc (exc_class: string) (exc_text: pystr)

definition bind_exc :: "pyexc + 'a \<Rightarrow> ('a \<Rightarrow> pyexc + 'b) \<Rightarrow> pyexc + 'b" where
  "bind_exc m f = (case m of Inl e \<Rightarrow> Inl e | Inr x \<Rightarrow> f x)"

definition try_except :: "pyexc + 'a \<Rightarrow> (pyexc \<Rightarrow> pyexc + 'a) \<Rightarrow> pyexc + 'a" where
  "try_except body handler = (case body of Inl e \<Rightarrow> handler e | Inr x \<Rightarrow> Inr x)"

text \<open>
  \<open>xs[i]\<close> on a sequence: an index from \<open>0\<close> counts from the front, an index from
  \<open>-1\<close> down counts from the end, and any other index raises \<open>IndexError\<close>, whose
  text names the kind of sequence.
\<close>

definition index_seq :: "string \<Rightarrow> 'a list \<Rightarrow> int \<Rightarrow> pyexc + 'a" where
  "index_seq kind xs i =
     (if 0 \<le> i \<and> i < int (length xs) then Inr (xs ! nat i)
      else if i < 0 \<and> - int (length xs) \<le> i then Inr (xs ! nat (int (length xs) + i))
      else Inl (PyExc ''IndexError'' (ascii (kind @ '' index out of range''))))"

definition index_list :: "'a list \<Rightarrow> int \<Rightarrow> pyexc + 'a" where
  "index_list = index_seq ''list''"

text \<open>
  The objects \<open>json.loads\<close> returns. A \<open>float\<close> is \<open>m * 2 ^ e\<close>, a negative zero, an
  infinity (\<open>True\<close> for the positive one) or a NaN. A \<open>dict\<close> is the list of its items
  in insertion order; a key is read at its first item.
\<close>

datatype pyfloat = Float int int | NegZero | Infinity bool | NaN

datatype pyval =
    VNone
  | VBool bool
  | VInt int
  | VFloat pyfloat
  | VStr pystr
  | VList "pyval list"
  | VDict "(pystr \<times> pyval) list"

section \<open>gemini\_app.py: the LLM request and its reply\<close>

text \<open>
  The hosted services are outside the repository. An Anthropic client is what its
  \<open>messages.create\<close> does with a model name, a token limit and the user's prompt: it
  raises, or it returns a message whose \<open>content\<close> is a list of blocks, each with a
  \<open>text\<close> attribute that is a string or raises when read. A Gemini model is what its
  \<open>generate_content\<close> does with the prompt: it raises, or it returns a response whose
  \<open>text\<close> is a string or raises when read. \<open>json.loads\<close> is a parameter of the same
  kind.
\<close>

type_synonym claude_client = "pystr \<Rightarrow> int \<Rightarrow> pystr \<Rightarrow> pyexc + (pyexc + pystr) list"
type_synonym gemini_model = "pystr \<Rightarrow> pyexc + (pyexc + pystr)"

record DocumentProcessor =
  provider :: pystr
  client :: "claude_client option"
  model :: "gemini_model option"

text \<open>The \<open>repr\<close> of a string of plain ASCII letters: the text between single quotes.\<close>

definition quoted :: "string \<Rightarrow> pystr" where
  "quoted a = [39] @ ascii a @ [39]"

definition no_attribute :: "string \<Rightarrow> pyexc" where
  "no_attribute a =
     PyExc ''AttributeError''
       (quoted ''DocumentProcessor'' @ ascii '' object has no attribute '' @ quoted a)"

definition get_client :: "DocumentProcessor \<Rightarrow> pyexc + claude_client" where
  "get_client self =
     (case client self of None \<Rightarrow> Inl (no_attribute ''client'') | Some c \<Rightarrow> Inr c)"

definition get_model :: "DocumentProcessor \<Rightarrow> pyexc + gemini_model" where
  "get_model self =
     (case model self of None \<Rightarrow> Inl (no_attribute ''model'') | Some m \<Rightarrow> Inr m)"

text \<open>
  The prompt of \<open>extract_signing_rules_smart\<close>, line by line: the lines before the
  document text and the lines after it. The first and the last line of each part are
  the text around the line breaks next to the document.
\<close>

definition prompt_before :: "pystr list" where
  \<open>prompt_before =
     [[],
      ascii ''        Analyze this document and automatically detect all sections containing signing rules or approval checkboxes.'',
      ascii ''        '',
      ascii ''        Task:'',
      ascii ''        1. Scan entire document for sections with signing rules/approval checkboxes'',
      ascii ''        2. Identify checkbox elements: '' @ [9633] @ ascii '', '' @ [9744] @ ascii '', '' @ [9632] @ ascii '', '' @ [9745] @ ascii '', '' @ [10003] @ ascii '', X, numbers in brackets, parentheses'',
      ascii ''        3. Determine approval status: filled = approved, empty = not approved'',
      ascii ''        4. Extract complete rule text'',
      ascii ''        '',
      ascii ''        Document:'',
      ascii ''        '']\<close>

definition prompt_after :: "pystr list" where
  \<open>prompt_after =
     [[],
      ascii ''        '',
      ascii ''        Return JSON object:'',
      ascii ''        {'',
      ascii ''            "status": "success" or "error",'',
      ascii ''            "message": "description of findings",'',
      ascii ''            "sections_found": ['',
      ascii ''                {'',
      ascii ''                    "section_name": "section name",'',
      ascii ''                    "section_number": "section number",'',
      ascii ''                    "location": "location in document"'',
      ascii ''                }'',
      ascii ''            ],'',
      ascii ''            "total_rules": number,'',
      ascii ''            "approved_count": number,'',
      ascii ''            "approved_rules": ['',
      ascii ''                {'',
      ascii ''                    "rule_number": number,'',
      ascii ''                    "rule_text": "rule text without checkbox",'',
      ascii ''                    "checkbox_content": "checkbox content",'',
      ascii ''                    "section": "section name",'',
      ascii ''                    "is_approved": true'',
      ascii ''                }'',
      ascii ''            ],'',
      ascii ''            "all_rules": ['',
      ascii ''                {'',
      ascii ''                    "rule_number": number,'',
      ascii ''                    "rule_text": "rule text without checkbox",'',
      ascii ''                    "checkbox_content": "checkbox content", '',
      ascii ''                    "section": "section name",'',
      ascii ''                    "is_approved": true/false'',
      ascii ''                }'',
      ascii ''            ]'',
      ascii ''        }'',
      ascii ''        '',
      ascii ''        Checkbox detection rules:'',
      ascii ''        - Approved: '' @ [10003] @ ascii '', X, '' @ [9745] @ ascii '', '' @ [9632] @ ascii '', numbers, letters, symbols'',
      ascii ''        - Not approved: '' @ [9633] @ ascii '', '' @ [9744] @ ascii '', ( ), [ ], empty spaces'',
      ascii ''        '',
      ascii ''        Return only JSON, no other text.'',
      ascii ''        '']\<close>

fun join_lines :: "pystr list \<Rightarrow> pystr" where
  "join_lines [] = []"
| "join_lines [l] = l"
| "join_lines (l # ls) = l @ [10] @ join_lines ls"

definition prompt :: "pystr \<Rightarrow> pystr" where
  "prompt document_content =
     join_lines prompt_before @ document_content @ join_lines prompt_after"

text \<open>
  Lines 85 to 94: the request to the selected provider. Any provider other than
  \<open>claude\<close> takes the Gemini branch. The reply text is stripped.
\<close>

definition request_text :: "DocumentProcessor \<Rightarrow> pystr \<Rightarrow> pyexc + pystr" where
  "request_text self p =
     (if provider self = ascii ''claude'' then
        bind_exc (get_client self) (\<lambda>c.
        bind_exc (c (ascii ''claude-3-sonnet-20240229'') 4000 p) (\<lambda>content.
        bind_exc (index_list content 0) (\<lambda>block.
        bind_exc block (\<lambda>text.
        Inr (strip text)))))
      else
        bind_exc (get_model self) (\<lambda>m.
        bind_exc (m p) (\<lambda>response.
        bind_exc response (\<lambda>text.
        Inr (strip text)))))"

text \<open>Lines 96 to 99: the markdown code fence around the reply is cut off.\<close>

definition strip_code_fence :: "pystr \<Rightarrow> pystr" where
  "strip_code_fence response_text =
     (if startswith response_text (ascii ''```json'') then
        slice response_text (Some 7) (Some (- 3))
      else if startswith response_text (ascii ''```'') then
        slice response_text (Some 3) (Some (- 3))
      else response_text)"

text \<open>Lines 104 to 112: the result object of the exception handler.\<close>

definition error_result :: "pyexc \<Rightarrow> pyval" where
  "error_result e =
     VDict [(ascii ''status'', VStr (ascii ''error'')),
            (ascii ''message'', VStr (ascii ''Error processing document: '' @ exc_text e)),
            (ascii ''sections_found'', VList []),
            (ascii ''total_rules'', VInt 0),
            (ascii ''approved_count'', VInt 0),
            (ascii ''approved_rules'', VList []),
            (ascii ''all_rules'', VList [])]"

definition extract_signing_rules_smart ::
  "(pystr \<Rightarrow> pyexc + pyval) \<Rightarrow> DocumentProcessor \<Rightarrow> pystr \<Rightarrow> pyexc + pyval" where
  "extract_signing_rules_smart json_loads self document_content =
     try_except
       (bind_exc (request_text self (prompt document_content)) (\<lambda>response_text.
        json_loads (strip_code_fence response_text)))
       (\<lambda>e. Inr (error_result e))"

section \<open>Output and exceptions together\<close>

text \<open>
  A function that writes to the page or to the console and may raise returns what it
  wrote and then its value or its exception: what was written before an exception stays
  written.
\<close>

type_synonym ('o, 'a) run = "'o list \<times> (pyexc + 'a)"

definition emit :: "'o \<Rightarrow> ('o, unit) run" where
  "emit x = ([x], Inr ())"

definition eval :: "pyexc + 'a \<Rightarrow> ('o, 'a) run" where
  "eval m = ([], m)"

definition bind_run :: "('o, 'a) run \<Rightarrow> ('a \<Rightarrow> ('o, 'b) run) \<Rightarrow> ('o, 'b) run" where
  "bind_run m f =
     (case m of
        (out, Inl e) \<Rightarrow> (out, Inl e)
      | (out, Inr x) \<Rightarrow> (case f x of (out', r) \<Rightarrow> (out @ out', r)))"

primrec for_each :: "'a list \<Rightarrow> ('a \<Rightarrow> ('o, unit) run) \<Rightarrow> ('o, unit) run" where
  "for_each [] f = ([], Inr ())"
| "for_each (x # xs) f = bind_run (f x) (\<lambda>_. for_each xs f)"

definition try_run :: "('o, 'a) run \<Rightarrow> (pyexc \<Rightarrow> ('o, 'a) run) \<Rightarrow> ('o, 'a) run" where
  "try_run body handler =
     (case body of
        (out, Inl e) \<Rightarrow> (case handler e of (out', r) \<Rightarrow> (out @ out', r))
      | (out, Inr x) \<Rightarrow> (out, Inr x))"

text \<open>A \<open>with\<close> block of a container: what its body writes goes into the container.\<close>

definition inside :: "('o list \<Rightarrow> 'o) \<Rightarrow> ('o, 'a) run \<Rightarrow> ('o, 'a) run" where
  "inside box m = (case m of (out, r) \<Rightarrow> ([box out], r))"

section \<open>Operations on Python objects\<close>

fun type_name :: "pyval \<Rightarrow> string" where
  "type_name VNone = ''NoneType''"
| "type_name (VBool _) = ''bool''"
| "type_name (VInt _) = ''int''"
| "type_name (VFloat _) = ''float''"
| "type_name (VStr _) = ''str''"
| "type_name (VList _) = ''list''"
| "type_name (VDict _) = ''dict''"

definition type_error :: "pystr \<Rightarrow> pyexc + 'a" where
  "type_error text = Inl (PyExc ''TypeError'' text)"

text \<open>\<open>obj[key]\<close> with a string key (the texts of the errors are those of Python 3.11).\<close>

fun subscript :: "pyval \<Rightarrow> string \<Rightarrow> pyexc + pyval" where
  "subscript (VDict items) key =
     (case map_of items (ascii key) of
        Some v \<Rightarrow> Inr v
      | None \<Rightarrow> Inl (PyExc ''KeyError'' (quoted key)))"
| "subscript (VList _) key =
     type_error (ascii ''list indices must be integers or slices, not str'')"
| "subscript (VStr _) key =
     type_error (ascii ''string indices must be integers, not '' @ quoted ''str'')"
| "subscript obj key =
     type_error (quoted (type_name obj) @ ascii '' object is not subscriptable'')"

text \<open>\<open>obj.get(key, fallback)\<close>: only a \<open>dict\<close> has the method.\<close>

fun get_or :: "pyval \<Rightarrow> string \<Rightarrow> pyval \<Rightarrow> pyexc + pyval" where
  "get_or (VDict items) key fallback =
     Inr (case map_of items (ascii key) of Some v \<Rightarrow> v | None \<Rightarrow> fallback)"
| "get_or obj key fallback =
     Inl (PyExc ''AttributeError''
            (quoted (type_name obj) @ ascii '' object has no attribute '' @ quoted ''get''))"

text \<open>\<open>len(obj)\<close>.\<close>

fun len_of :: "pyval \<Rightarrow> pyexc + nat" where
  "len_of (VStr s) = Inr (length s)"
| "len_of (VList xs) = Inr (length xs)"
| "len_of (VDict items) = Inr (length (remdups (map fst items)))"
| "len_of obj =
     type_error (ascii ''object of type '' @ quoted (type_name obj) @ ascii '' has no len()'')"

text \<open>
  What a \<open>for\<close> loop over the object visits: the elements of a list, the characters of
  a string, the keys of a dict.
\<close>

fun iterate :: "pyval \<Rightarrow> pyexc + pyval list" where
  "iterate (VList xs) = Inr xs"
| "iterate (VStr s) = Inr (map (\<lambda>c. VStr [c]) s)"
| "iterate (VDict items) = Inr (map VStr (remdups (map fst items)))"
| "iterate obj = type_error (quoted (type_name obj) @ ascii '' object is not iterable'')"

text \<open>The truth value of an object, as \<open>if obj:\<close> tests it.\<close>

fun truthy :: "pyval \<Rightarrow> bool" where
  "truthy VNone = False"
| "truthy (VBool b) = b"
| "truthy (VInt i) = (i \<noteq> 0)"
| "truthy (VFloat (Float m e)) = (m \<noteq> 0)"
| "truthy (VFloat NegZero) = False"
| "truthy (VFloat _) = True"
| "truthy (VStr s) = (s \<noteq> [])"
| "truthy (VList xs) = (xs \<noteq> [])"
| "truthy (VDict items) = (items \<noteq> [])"

text \<open>\<open>obj[:n]\<close>. A slice is not a key of a dict (Python 3.11: it is unhashable).\<close>

fun slice_to :: "pyval \<Rightarrow> int \<Rightarrow> pyexc + pyval" where
  "slice_to (VStr s) n = Inr (VStr (slice s None (Some n)))"
| "slice_to (VList xs) n = Inr (VList (slice xs None (Some n)))"
| "slice_to (VDict _) n = type_error (ascii ''unhashable type: '' @ quoted ''slice'')"
| "slice_to obj n =
     type_error (quoted (type_name obj) @ ascii '' object is not subscriptable'')"

section \<open>gemini\_app.py: the page\<close>

text \<open>
  The text of an f-string is kept as its pieces: the literal parts and the objects
  formatted into it. The elements of the page are what the Streamlit calls of the
  source put on it; a column and an expander hold the elements written inside their
  \<open>with\<close> block. The Streamlit calls themselves are taken not to raise.
\<close>

datatype frag = Lit pystr | Fmt pyval

datatype ui =
    St_error "frag list"
  | St_success "frag list"
  | St_write "frag list"
  | St_header "frag list"
  | St_subheader "frag list"
  | St_metric pystr pyval
  | St_divider
  | St_text_area pystr pystr
  | St_button pystr bool
  | St_column nat "ui list"
  | St_expander "frag list" "ui list"

text \<open>Lines 164 and 165: one entry of the list of sections.\<close>

definition show_section :: "pyval \<Rightarrow> (ui, unit) run" where
  "show_section section =
     bind_run (eval (subscript section ''section_name'')) (\<lambda>name.
     bind_run (eval (get_or section ''section_number'' (VStr []))) (\<lambda>number.
     emit (St_write [Lit ([8226] @ ascii '' **''), Fmt name, Lit (ascii ''** ''), Fmt number])))"

text \<open>Lines 169 to 174: one approved rule in its expander.\<close>

definition show_approved_rule :: "pyval \<Rightarrow> (ui, unit) run" where
  "show_approved_rule rule =
     bind_run (eval (subscript rule ''rule_number'')) (\<lambda>number.
     bind_run (eval (subscript rule ''rule_text'')) (\<lambda>text.
     bind_run (eval (slice_to text 50)) (\<lambda>start.
     inside (St_expander [Lit (ascii ''Rule ''), Fmt number, Lit (ascii '': ''), Fmt start,
                          Lit (ascii ''...'')])
       (bind_run (eval (get_or rule ''section'' (VStr (ascii ''N/A'')))) (\<lambda>sec.
        bind_run (emit (St_write [Lit (ascii ''**Section:** ''), Fmt sec])) (\<lambda>_.
        bind_run (eval (subscript rule ''checkbox_content'')) (\<lambda>box.
        bind_run (emit (St_write [Lit (ascii ''**Checkbox Content:** `''), Fmt box,
                                  Lit (ascii ''`'')])) (\<lambda>_.
        bind_run (eval (subscript rule ''rule_text'')) (\<lambda>full.
        bind_run (emit (St_write [Lit (ascii ''**Full Rule Text:** ''), Fmt full])) (\<lambda>_.
        emit (St_success [Lit ([9989] @ ascii '' APPROVED'')])))))))))))"

text \<open>Lines 177 to 183: one rule of the summary.\<close>

definition show_rule_summary :: "pyval \<Rightarrow> (ui, unit) run" where
  "show_rule_summary rule =
     bind_run (eval (subscript rule ''is_approved'')) (\<lambda>approved.
     bind_run (eval (subscript rule ''is_approved'')) (\<lambda>approved'.
     let status_icon = (if truthy approved then [9989] else [10060]);
         status_text = (if truthy approved' then ascii ''APPROVED'' else ascii ''NOT APPROVED'')
     in
     bind_run (eval (subscript rule ''rule_number'')) (\<lambda>number.
     bind_run (eval (subscript rule ''rule_text'')) (\<lambda>text.
     bind_run (emit (St_write [Lit (status_icon @ ascii '' **Rule ''), Fmt number,
                               Lit (ascii '':** ''), Fmt text])) (\<lambda>_.
     bind_run (eval (get_or rule ''section'' (VStr (ascii ''N/A'')))) (\<lambda>sec.
     bind_run (eval (subscript rule ''checkbox_content'')) (\<lambda>box.
     bind_run (emit (St_write [Lit (ascii ''   '' @ [128205] @ ascii '' Section: ''), Fmt sec,
                               Lit (ascii '' | Checkbox: `''), Fmt box,
                               Lit (ascii ''` | Status: '' @ status_text)])) (\<lambda>_.
     emit St_divider))))))))"

text \<open>Lines 147 to 183.\<close>

definition display_signing_rules :: "pyval \<Rightarrow> (ui, unit) run" where
  "display_signing_rules results =
     bind_run (eval (subscript results ''status'')) (\<lambda>status.
     if status = VStr (ascii ''error'') then
       bind_run (eval (subscript results ''message'')) (\<lambda>message.
       emit (St_error [Lit (ascii ''Error: ''), Fmt message]))
     else
       bind_run (emit (St_success
         [Lit ([9989] @ ascii '' Successfully processed document!'')])) (\<lambda>_.
       bind_run (inside (St_column 1)
         (bind_run (eval (subscript results ''total_rules'')) (\<lambda>total.
          emit (St_metric (ascii ''Total Rules'') total)))) (\<lambda>_.
       bind_run (inside (St_column 2)
         (bind_run (eval (subscript results ''approved_count'')) (\<lambda>approved.
          emit (St_metric (ascii ''Approved Rules'') approved)))) (\<lambda>_.
       bind_run (inside (St_column 3)
         (bind_run (eval (subscript results ''sections_found'')) (\<lambda>sections.
          bind_run (eval (len_of sections)) (\<lambda>n.
          emit (St_metric (ascii ''Sections Found'') (VInt (int n))))))) (\<lambda>_.
       bind_run (eval (subscript results ''sections_found'')) (\<lambda>sections.
       bind_run
         (if truthy sections then
            bind_run (emit (St_subheader [Lit ([128205] @ ascii '' Sections Found'')])) (\<lambda>_.
            bind_run (eval (subscript results ''sections_found'')) (\<lambda>sections'.
            bind_run (eval (iterate sections')) (\<lambda>each.
            for_each each show_section)))
          else ([], Inr ())) (\<lambda>_.
       bind_run (eval (subscript results ''approved_rules'')) (\<lambda>approved_rules.
       bind_run
         (if truthy approved_rules then
            bind_run (emit (St_subheader
              [Lit ([9989] @ ascii '' Approved Signing Rules'')])) (\<lambda>_.
            bind_run (eval (subscript results ''approved_rules'')) (\<lambda>approved_rules'.
            bind_run (eval (iterate approved_rules')) (\<lambda>each.
            for_each each show_approved_rule)))
          else ([], Inr ())) (\<lambda>_.
       inside (St_expander [Lit ([128203] @ ascii '' All Rules Summary'')])
         (bind_run (eval (subscript results ''all_rules'')) (\<lambda>all_rules.
          bind_run (eval (iterate all_rules)) (\<lambda>each.
          for_each each show_rule_summary))))))))))))"

section \<open>gemini\_app.py: reading the PDF\<close>

text \<open>
  PyPDF2 is outside the repository. \<open>PdfReader\<close> is a parameter: on an uploaded file
  it raises, or it yields the pages; a page is what its \<open>extract_text()\<close> does, a
  string or an exception. An index into the pages that is out of range raises
  \<open>IndexError\<close>, as for a list.
\<close>

type_synonym pdf_page = "pyexc + pystr"

definition index_pages :: "pdf_page list \<Rightarrow> int \<Rightarrow> pyexc + pdf_page" where
  "index_pages = index_seq ''sequence''"

text \<open>Lines 23 to 26: the loop that appends the text of each page and a line break.\<close>

fun concat_pages :: "pystr \<Rightarrow> pdf_page list \<Rightarrow> pyexc + pystr" where
  "concat_pages text [] = Inr text"
| "concat_pages text (page # pages) =
     bind_exc page (\<lambda>page_text. concat_pages (text @ page_text @ [10]) pages)"

text \<open>Lines 20 to 29.\<close>

definition extract_text_from_pdf ::
  "('f \<Rightarrow> pyexc + pdf_page list) \<Rightarrow> 'f \<Rightarrow> (ui, pystr) run" where
  "extract_text_from_pdf PdfReader uploaded_file =
     try_run
       (eval (bind_exc (PdfReader uploaded_file) (\<lambda>pages. concat_pages [] pages)))
       (\<lambda>e. bind_run (emit (St_error [Lit (ascii ''Error reading PDF: '' @ exc_text e)])) (\<lambda>_.
            eval (Inr [])))"

section \<open>gemini\_app.py: the page viewer\<close>

text \<open>
  The session state of the application has two keys, each absent at first. A run of
  the script is started by the user; \<open>click\<close> says which button of the viewer, if
  any, started it. A button that is disabled cannot be clicked, so \<open>st.button\<close>
  returns true only for the clicked button when it is enabled. \<open>st.rerun()\<close> ends the
  run with a signal that is not an \<open>Exception\<close>: no handler of the script catches
  it, and the script runs again on the new session state.
\<close>

record session_state =
  current_page :: "int option"
  extraction_results :: "pyval option"

datatype click = NoClick | ClickPrevious | ClickNext

datatype 'a outcome = Returned 'a | Rerun

definition st_button :: "click \<Rightarrow> click \<Rightarrow> bool \<Rightarrow> bool" where
  "st_button clicked this disabled \<longleftrightarrow> clicked = this \<and> \<not> disabled"

text \<open>Lines 116 to 141, the body of the \<open>try\<close>.\<close>

definition display_pdf_body ::
  "('f \<Rightarrow> pyexc + pdf_page list) \<Rightarrow> click \<Rightarrow> 'f \<Rightarrow> session_state \<Rightarrow>
     session_state \<times> ui list \<times> (pyexc + int outcome)" where
  "display_pdf_body PdfReader clicked pdf_file st =
     (case PdfReader pdf_file of
        Inl e \<Rightarrow> (st, [], Inl e)
      | Inr pages \<Rightarrow>
          let total_pages = int (length pages);
              page = (case current_page st of None \<Rightarrow> 0 | Some p \<Rightarrow> p);
              st1 = st\<lparr>current_page := Some page\<rparr>;
              previous = St_column 1 [St_button ([9664] @ ascii '' Previous'') (page = 0)];
              counter = St_column 2 [St_write [Lit (ascii ''Page ''), Fmt (VInt (page + 1)),
                                               Lit (ascii '' of ''), Fmt (VInt total_pages)]];
              next = St_column 3 [St_button (ascii ''Next '' @ [9654]) (page \<ge> total_pages - 1)]
          in
          if st_button clicked ClickPrevious (page = 0) then
            (st1\<lparr>current_page := Some (page - 1)\<rparr>, [previous], Inr Rerun)
          else if st_button clicked ClickNext (page \<ge> total_pages - 1) then
            (st1\<lparr>current_page := Some (page + 1)\<rparr>, [previous, counter, next], Inr Rerun)
          else
            (case bind_exc (index_pages pages page) (\<lambda>p. p) of
               Inl e \<Rightarrow> (st1, [previous, counter, next], Inl e)
             | Inr current_page_text \<Rightarrow>
                 (st1,
                  [previous, counter, next,
                   St_text_area (ascii ''Document Content (Current Page):'') current_page_text],
                  Inr (Returned total_pages))))"

text \<open>Lines 114 to 145.\<close>

definition display_pdf_pages ::
  "('f \<Rightarrow> pyexc + pdf_page list) \<Rightarrow> click \<Rightarrow> 'f \<Rightarrow> session_state \<Rightarrow>
     session_state \<times> ui list \<times> int outcome" where
  "display_pdf_pages PdfReader clicked pdf_file st =
     (case display_pdf_body PdfReader clicked pdf_file st of
        (st', out, Inl e) \<Rightarrow>
          (st', out @ [St_error [Lit (ascii ''Error displaying PDF: '' @ exc_text e)]], Returned 0)
      | (st', out, Inr r) \<Rightarrow> (st', out, r))"

text \<open>
  The session states the viewer of one PDF can be in: a session without the key
  \<open>current_page\<close>, and the state after any run of the viewer from such a state. The
  other key of the session is written elsewhere.
\<close>

inductive viewing :: "('f \<Rightarrow> pyexc + pdf_page list) \<Rightarrow> 'f \<Rightarrow> session_state \<Rightarrow> bool"
  for PdfReader :: "'f \<Rightarrow> pyexc + pdf_page list" and pdf_file :: 'f where
  fresh: "current_page st = None \<Longrightarrow> viewing PdfReader pdf_file st"
| run: "viewing PdfReader pdf_file st \<Longrightarrow>
        display_pdf_pages PdfReader clicked pdf_file st = (st', out, r) \<Longrightarrow>
        viewing PdfReader pdf_file st'"
| other: "viewing PdfReader pdf_file st \<Longrightarrow>
          viewing PdfReader pdf_file (st\<lparr>extraction_results := x\<rparr>)"

section \<open>gemini\_app.py: the extraction button\<close>

text \<open>
  The libraries the application calls: the constructors of the two clients,
  \<open>json.loads\<close> and \<open>PdfReader\<close>.
\<close>

record 'f services =
  Anthropic :: "pystr \<Rightarrow> pyexc + claude_client"
  genai_configure :: "pystr \<Rightarrow> pyexc + unit"
  GenerativeModel :: "pystr \<Rightarrow> pyexc + gemini_model"
  json_loads :: "pystr \<Rightarrow> pyexc + pyval"
  PdfReader :: "'f \<Rightarrow> pyexc + pdf_page list"

text \<open>Lines 12 to 18: a provider other than the two known ones sets neither client.\<close>

definition DocumentProcessor_init ::
  "'f services \<Rightarrow> pystr \<Rightarrow> pystr \<Rightarrow> pyexc + DocumentProcessor" where
  "DocumentProcessor_init sv api_key prov =
     (if prov = ascii ''claude'' then
        bind_exc (Anthropic sv api_key) (\<lambda>c.
        Inr \<lparr>provider = prov, client = Some c, model = None\<rparr>)
      else if prov = ascii ''gemini'' then
        bind_exc (genai_configure sv api_key) (\<lambda>_.
        bind_exc (GenerativeModel sv (ascii ''gemini-pro'')) (\<lambda>m.
        Inr \<lparr>provider = prov, client = None, model = Some m\<rparr>))
      else Inr \<lparr>provider = prov, client = None, model = None\<rparr>)"

text \<open>Lines 242 to 250, the body of the \<open>try\<close> in \<open>main\<close>.\<close>

definition extract_clicked_body ::
  "'f services \<Rightarrow> pystr \<Rightarrow> pystr \<Rightarrow> 'f \<Rightarrow> session_state \<Rightarrow>
     session_state \<times> (ui, unit) run" where
  "extract_clicked_body sv api_key prov uploaded_file st =
     (case DocumentProcessor_init sv api_key prov of
        Inl e \<Rightarrow> (st, [], Inl e)
      | Inr processor \<Rightarrow>
          (case extract_text_from_pdf (PdfReader sv) uploaded_file of
             (out, Inl e) \<Rightarrow> (st, out, Inl e)
           | (out, Inr document_text) \<Rightarrow>
               if document_text \<noteq> [] then
                 (case extract_signing_rules_smart (json_loads sv) processor document_text of
                    Inl e \<Rightarrow> (st, out, Inl e)
                  | Inr results \<Rightarrow> (st\<lparr>extraction_results := Some results\<rparr>, out, Inr ()))
               else
                 (st, out @ [St_error [Lit (ascii ''Could not extract text from PDF'')]],
                  Inr ())))"

text \<open>Lines 235 to 253: what a click on the extraction button does.\<close>

definition extract_clicked ::
  "'f services \<Rightarrow> pystr \<Rightarrow> pystr \<Rightarrow> 'f \<Rightarrow> session_state \<Rightarrow>
     session_state \<times> (ui, unit) run" where
  "extract_clicked sv api_key prov uploaded_file st =
     (if api_key = [] then
        (st, [St_error [Lit (ascii ''Please enter your API key in the sidebar!'')]], Inr ())
      else
        (case extract_clicked_body sv api_key prov uploaded_file st of
           (st', out, Inl e) \<Rightarrow>
             (st', out @ [St_error [Lit (ascii ''Error processing document: '' @ exc_text e)]],
              Inr ())
         | (st', out, Inr u) \<Rightarrow> (st', out, Inr u)))"

text \<open>Lines 255 to 257: the stored result is rendered outside any \<open>try\<close>.\<close>

definition show_results :: "session_state \<Rightarrow> (ui, unit) run" where
  "show_results st =
     (case extraction_results st of
        None \<Rightarrow> ([], Inr ())
      | Some results \<Rightarrow>
          bind_run (emit (St_header [Lit ([127919] @ ascii '' Extraction Results'')])) (\<lambda>_.
          display_signing_rules results))"

section \<open>donut.py\<close>

text \<open>
  The libraries of the script: \<open>convert_from_path\<close> with the path and the resolution,
  the Donut processor applied to an image, its tokenizer applied to the prompt, the
  model's \<open>generate\<close> on both, and the processor's \<open>batch_decode\<close>. Each raises or
  returns.
\<close>

record ('img, 'inp, 'ids, 'outp) donut =
  convert_from_path :: "pystr \<Rightarrow> int \<Rightarrow> pyexc + 'img list"
  processor_call :: "'img \<Rightarrow> pyexc + 'inp"
  tokenizer :: "pystr \<Rightarrow> pyexc + 'ids"
  generate :: "'inp \<Rightarrow> 'ids \<Rightarrow> pyexc + 'outp"
  batch_decode :: "'outp \<Rightarrow> pyexc + pystr list"

text \<open>
  \<open>s.replace(old, new)\<close>: every occurrence of \<open>old\<close>, found from left to right
  without overlap, is replaced; an empty \<open>old\<close> matches before every character and at
  the end.
\<close>

fun replace :: "pystr \<Rightarrow> pystr \<Rightarrow> pystr \<Rightarrow> pystr" where
  "replace [] old new = (if old = [] then new else [])"
| "replace (c # cs) old new =
     (if old = [] then new @ c # replace cs old new
      else if startswith (c # cs) old then new @ replace (drop (length old) (c # cs)) old new
      else c # replace cs old new)"

text \<open>The decimal digits of a number, as \<open>str\<close> gives them.\<close>

fun decimal :: "nat \<Rightarrow> pystr" where
  "decimal n = (if n < 10 then [48 + n] else decimal (n div 10) @ [48 + n mod 10])"

text \<open>Lines 7 to 9.\<close>

definition pdf_to_images ::
  "('img, 'inp, 'ids, 'outp) donut \<Rightarrow> pystr \<Rightarrow> pyexc + 'img list" where
  "pdf_to_images lib pdf_path = convert_from_path lib pdf_path 200"

text \<open>Lines 19 to 33.\<close>

definition ask_question ::
  "('img, 'inp, 'ids, 'outp) donut \<Rightarrow> 'img \<Rightarrow> pystr \<Rightarrow> pyexc + pystr" where
  "ask_question lib img question =
     (let p = ascii ''<s_docvqa><s_question>'' @ question @ ascii ''</s_question><s_answer>''
      in
      bind_exc (processor_call lib img) (\<lambda>inputs.
      bind_exc (tokenizer lib p) (\<lambda>decoder_input_ids.
      bind_exc (generate lib inputs decoder_input_ids) (\<lambda>outputs.
      bind_exc (batch_decode lib outputs) (\<lambda>decoded.
      bind_exc (index_list decoded 0) (\<lambda>result.
      Inr (strip (replace result p []))))))))"

definition questions :: "pystr list" where
  "questions =
     [ascii ''What is the print full name?'',
      ascii ''What is the print surname?'',
      ascii ''What is the official position?'']"

text \<open>
  Lines 36 to 49. The console is the list of the printed texts, one for each call of
  \<open>print\<close>.
\<close>

definition extract_signatory_info ::
  "('img, 'inp, 'ids, 'outp) donut \<Rightarrow> pystr \<Rightarrow> (pystr, unit) run" where
  "extract_signatory_info lib pdf_path =
     bind_run (eval (pdf_to_images lib pdf_path)) (\<lambda>images.
     for_each (enumerate 0 images) (\<lambda>(page_num, img).
       bind_run (emit ([10, 128196] @ ascii '' Page '' @ decimal (page_num + 1))) (\<lambda>_.
       for_each questions (\<lambda>q.
         bind_run (eval (ask_question lib img q)) (\<lambda>answer.
         emit (q @ ascii '' '' @ [8594] @ ascii '' '' @ answer))))))"

section \<open>duplicate.py\<close>

text \<open>
  OpenCV is outside the repository: \<open>detectAndCompute\<close> on an image raises or returns
  the descriptors, \<open>None\<close> when it finds none, and the matcher's \<open>match\<close> on two
  descriptor arrays raises or returns the matches.
\<close>

record ('img, 'des, 'mt) cv2 =
  detectAndCompute :: "'img \<Rightarrow> pyexc + 'des option"
  bf_match :: "'des \<Rightarrow> 'des \<Rightarrow> pyexc + 'mt list"

text \<open>Lines 3 to 17.\<close>

definition orb_similarity :: "('img, 'des, 'mt) cv2 \<Rightarrow> 'img \<Rightarrow> 'img \<Rightarrow> pyexc + int" where
  "orb_similarity cv img1 img2 =
     bind_exc (detectAndCompute cv img1) (\<lambda>des1.
     bind_exc (detectAndCompute cv img2) (\<lambda>des2.
     case (des1, des2) of
       (Some d1, Some d2) \<Rightarrow>
         bind_exc (bf_match cv d1 d2) (\<lambda>matches. Inr (int (length matches)))
     | _ \<Rightarrow> Inr 0))"

text \<open>Lines 19 to 21.\<close>

definition are_images_similar_orb ::
  "('img, 'des, 'mt) cv2 \<Rightarrow> 'img \<Rightarrow> 'img \<Rightarrow> int \<Rightarrow> pyexc + bool" where
  "are_images_similar_orb cv img1 img2 match_threshold =
     bind_exc (orb_similarity cv img1 img2) (\<lambda>matches.
     Inr (matches > match_threshold))"

section \<open>The contract of the result object\<close>

text \<open>The value of a key of a dict; nothing for an absent key or another object.\<close>

definition field :: "pyval \<Rightarrow> string \<Rightarrow> pyval option" where
  "field obj key = (case obj of VDict items \<Rightarrow> map_of items (ascii key) | _ \<Rightarrow> None)"

text \<open>
  The second testable property of the specification: the count of approved rules is
  the length of the list of approved rules, and every approved rule is among all rules
  and is marked as approved.
\<close>

definition counts_match :: "pyval \<Rightarrow> bool" where
  "counts_match r \<longleftrightarrow>
     (case field r ''approved_rules'' of
        Some (VList approved) \<Rightarrow>
          (case field r ''all_rules'' of
             Some (VList every) \<Rightarrow>
               field r ''approved_count'' = Some (VInt (int (length approved))) \<and>
               (\<forall>rule \<in> set approved.
                  rule \<in> set every \<and> field rule ''is_approved'' = Some (VBool True))
           | _ \<Rightarrow> False)
      | _ \<Rightarrow> False)"

text \<open>
  The contract of the result object: an object with the seven fields, where the
  sections are objects with a name and the rules are objects with a number, a text that
  is a string, the content of the checkbox and the approval flag.
\<close>

definition is_section :: "pyval \<Rightarrow> bool" where
  "is_section s \<longleftrightarrow> field s ''section_name'' \<noteq> None"

definition is_rule :: "pyval \<Rightarrow> bool" where
  "is_rule r \<longleftrightarrow>
     field r ''rule_number'' \<noteq> None \<and>
     (case field r ''rule_text'' of Some (VStr _) \<Rightarrow> True | _ \<Rightarrow> False) \<and>
     field r ''checkbox_content'' \<noteq> None \<and>
     field r ''is_approved'' \<noteq> None"

definition list_field :: "(pyval \<Rightarrow> bool) \<Rightarrow> pyval \<Rightarrow> string \<Rightarrow> bool" where
  "list_field ok r key \<longleftrightarrow>
     (case field r key of Some (VList xs) \<Rightarrow> list_all ok xs | _ \<Rightarrow> False)"

definition has_fields :: "pyval \<Rightarrow> bool" where
  "has_fields r \<longleftrightarrow>
     field r ''status'' \<noteq> None \<and>
     field r ''message'' \<noteq> None \<and>
     list_field is_section r ''sections_found'' \<and>
     field r ''total_rules'' \<noteq> None \<and>
     field r ''approved_count'' \<noteq> None \<and>
     list_field is_rule r ''approved_rules'' \<and>
     list_field is_rule r ''all_rules''"

section \<open>Concrete services and documents\<close>

text \<open>
  Services for the examples: a \<open>json.loads\<close> that knows the listed texts and rejects
  every other text, a Claude client that answers with one block of a given text, and
  one whose request fails.
\<close>

definition loads_of :: "(pystr \<times> pyval) list \<Rightarrow> pystr \<Rightarrow> pyexc + pyval" where
  "loads_of known text =
     (case map_of known text of
        Some v \<Rightarrow> Inr v
      | None \<Rightarrow>
          Inl (PyExc ''JSONDecodeError'' (ascii ''Expecting value: line 1 column 1 (char 0)'')))"

definition claude_replying :: "pystr \<Rightarrow> DocumentProcessor" where
  "claude_replying text =
     \<lparr>provider = ascii ''claude'', client = Some (\<lambda>_ _ _. Inr [Inr text]), model = None\<rparr>"

definition claude_failing :: DocumentProcessor where
  "claude_failing =
     \<lparr>provider = ascii ''claude'',
      client = Some (\<lambda>_ _ _. Inl (PyExc ''APIConnectionError'' (ascii ''Connection error.''))),
      model = None\<rparr>"

text \<open>A rule object, and replies of the model with the objects they denote.\<close>

definition rule_one :: pyval where
  "rule_one =
     VDict [(ascii ''rule_number'', VInt 1),
            (ascii ''rule_text'', VStr (ascii ''Two directors sign jointly'')),
            (ascii ''checkbox_content'', VStr (ascii ''X'')),
            (ascii ''section'', VStr (ascii ''Signing rules'')),
            (ascii ''is_approved'', VBool True)]"

definition good_text :: pystr where
  \<open>good_text = ascii ''{"status": "success", "message": "1 rule", "sections_found": [{"section_name": "Signing rules"}], "total_rules": 1, "approved_count": 1, "approved_rules": [{"rule_number": 1, "rule_text": "Two directors sign jointly", "checkbox_content": "X", "section": "Signing rules", "is_approved": true}], "all_rules": [{"rule_number": 1, "rule_text": "Two directors sign jointly", "checkbox_content": "X", "section": "Signing rules", "is_approved": true}]}''\<close>

definition good_object :: pyval where
  "good_object =
     VDict [(ascii ''status'', VStr (ascii ''success'')),
            (ascii ''message'', VStr (ascii ''1 rule'')),
            (ascii ''sections_found'',
               VList [VDict [(ascii ''section_name'', VStr (ascii ''Signing rules''))]]),
            (ascii ''total_rules'', VInt 1),
            (ascii ''approved_count'', VInt 1),
            (ascii ''approved_rules'', VList [rule_one]),
            (ascii ''all_rules'', VList [rule_one])]"

definition miscounted_text :: pystr where
  \<open>miscounted_text = ascii ''{"status": "success", "message": "none", "sections_found": [], "total_rules": 0, "approved_count": 2, "approved_rules": [], "all_rules": []}''\<close>

definition miscounted_object :: pyval where
  "miscounted_object =
     VDict [(ascii ''status'', VStr (ascii ''success'')),
            (ascii ''message'', VStr (ascii ''none'')),
            (ascii ''sections_found'', VList []),
            (ascii ''total_rules'', VInt 0),
            (ascii ''approved_count'', VInt 2),
            (ascii ''approved_rules'', VList []),
            (ascii ''all_rules'', VList [])]"

definition fenced_text :: pystr where
  "fenced_text = ascii ''  ```json{} //  ''"

definition known_texts :: "(pystr \<times> pyval) list" where
  \<open>known_texts =
     [(good_text, good_object),
      (miscounted_text, miscounted_object),
      (ascii ''{}'', VDict [])]\<close>

text \<open>
  OpenCV for the examples: one that finds no descriptors in any image, and one that
  finds descriptors and a given number of matches.
\<close>

definition blank_cv :: "(unit, unit, unit) cv2" where
  "blank_cv = \<lparr>detectAndCompute = (\<lambda>_. Inr None), bf_match = (\<lambda>_ _. Inr [])\<rparr>"

definition matching_cv :: "nat \<Rightarrow> (unit, unit, unit) cv2" where
  "matching_cv n =
     \<lparr>detectAndCompute = (\<lambda>_. Inr (Some ())), bf_match = (\<lambda>_ _. Inr (replicate n ()))\<rparr>"

text \<open>
  Donut for the examples. A page image is the name written on it; the model answers
  every question with the prompt and then that name. In the second one the model
  fails.
\<close>

definition canned_donut :: "(pystr, pystr, pystr, pystr) donut" where
  "canned_donut =
     \<lparr>convert_from_path = (\<lambda>_ _. Inr [ascii ''Ada'', ascii ''Bob'']),
      processor_call = (\<lambda>img. Inr img),
      tokenizer = (\<lambda>p. Inr p),
      generate = (\<lambda>inputs ids. Inr (ids @ ascii '' '' @ inputs)),
      batch_decode = (\<lambda>outputs. Inr [outputs])\<rparr>"

definition broken_donut :: "(pystr, pystr, pystr, pystr) donut" where
  "broken_donut =
     canned_donut\<lparr>generate := (\<lambda>_ _. Inl (PyExc ''RuntimeError'' (ascii ''out of memory'')))\<rparr>"

definition unconvertible_donut :: "(pystr, pystr, pystr, pystr) donut" where
  "unconvertible_donut =
     canned_donut\<lparr>convert_from_path :=
       (\<lambda>_ _. Inl (PyExc ''PDFPageCountError'' (ascii ''Unable to get page count.'')))\<rparr>"

definition failing_cv :: "(unit, unit, unit) cv2" where
  "failing_cv =
     \<lparr>detectAndCompute = (\<lambda>_. Inl (PyExc ''error'' (ascii ''Incorrect type of input image''))),
      bf_match = (\<lambda>_ _. Inr [])\<rparr>"

text \<open>A PDF reader for the examples: the file is the list of the texts of its pages.\<close>

definition pages_of :: "pystr list \<Rightarrow> pyexc + pdf_page list" where
  "pages_of texts = Inr (map Inr texts)"

definition unreadable :: "pystr list \<Rightarrow> pyexc + pdf_page list" where
  "unreadable texts = Inl (PyExc ''PdfReadError'' (ascii ''EOF marker not found''))"

text \<open>Services in which no Claude client can be made.\<close>

definition offline_services :: "pystr list services" where
  "offline_services =
     \<lparr>Anthropic = (\<lambda>_. Inl (PyExc ''AnthropicError'' (ascii ''The api_key option must be set''))),
      genai_configure = (\<lambda>_. Inr ()),
      GenerativeModel = (\<lambda>_. Inr (\<lambda>_. Inl (PyExc ''RetryError'' (ascii ''Deadline exceeded'')))),
      json_loads = loads_of known_texts,
      PdfReader = pages_of\<rparr>"

section \<open>Strings and slices\<close>

lemma length_ascii [simp]: "length (ascii cs) = length cs"
  by (simp add: ascii_def)

lemma slice_from_to_end:
  "i \<le> length xs \<Longrightarrow> slice xs (Some (int i)) (Some (- 3)) = drop i (take (length xs - 3) xs)"
  by (simp add: slice_def slice_bound_def Let_def drop_take nat_diff_distrib')

lemma startswith_length: "startswith t p \<Longrightarrow> length p \<le> length t"
proof -
  assume "startswith t p"
  then have "length (take (length p) t) = length p"
    by (simp add: startswith_def)
  then show ?thesis by simp
qed

lemma strip_code_fence_eq:
  "strip_code_fence t =
     (if startswith t (ascii ''```json'') then drop 7 (take (length t - 3) t)
      else if startswith t (ascii ''```'') then drop 3 (take (length t - 3) t)
      else t)"
proof -
  have a: "slice t (Some 7) (Some (- 3)) = drop 7 (take (length t - 3) t)"
    if "startswith t (ascii ''```json'')"
    using slice_from_to_end [of 7 t] startswith_length [OF that] by simp
  have b: "slice t (Some 3) (Some (- 3)) = drop 3 (take (length t - 3) t)"
    if "startswith t (ascii ''```'')"
    using slice_from_to_end [of 3 t] startswith_length [OF that] by simp
  show ?thesis
    by (simp add: strip_code_fence_def a b)
qed

section \<open>The request and the concrete services\<close>

lemma request_text_claude_replying: "request_text (claude_replying text) p = Inr (strip text)"
  by (simp add: request_text_def claude_replying_def get_client_def bind_exc_def index_list_def
      index_seq_def)

lemma request_text_claude_failing:
  "request_text claude_failing p =
     Inl (PyExc ''APIConnectionError'' (ascii ''Connection error.''))"
  by (simp add: request_text_def claude_failing_def get_client_def bind_exc_def)

lemma request_text_stripped: "request_text self p = Inr t \<Longrightarrow> \<exists>raw. t = strip raw"
  by (auto simp: request_text_def bind_exc_def split: if_splits sum.splits)

lemma extract_cases:
  "extract_signing_rules_smart loads self d =
     (case request_text self (prompt d) of
        Inl e \<Rightarrow> Inr (error_result e)
      | Inr t \<Rightarrow>
          (case loads (strip_code_fence t) of
             Inl e \<Rightarrow> Inr (error_result e)
           | Inr v \<Rightarrow> Inr v))"
  by (simp add: extract_signing_rules_smart_def try_except_def bind_exc_def split: sum.splits)

lemma strip_good_text: "strip good_text = good_text"
  by (simp add: strip_def good_text_def ascii_def is_space_def)

lemma strip_miscounted_text: "strip miscounted_text = miscounted_text"
  by (simp add: strip_def miscounted_text_def ascii_def is_space_def)

lemma strip_fenced_text: "strip fenced_text = ascii ''```json{} //''"
  by (simp add: strip_def fenced_text_def ascii_def is_space_def)

lemma fence_good_text: "strip_code_fence good_text = good_text"
  by (simp add: strip_code_fence_def startswith_def good_text_def ascii_def)

lemma fence_miscounted_text: "strip_code_fence miscounted_text = miscounted_text"
  by (simp add: strip_code_fence_def startswith_def miscounted_text_def ascii_def)

lemma loads_good_text: "loads_of known_texts good_text = Inr good_object"
  by (simp add: loads_of_def known_texts_def)

lemma loads_miscounted_text: "loads_of known_texts miscounted_text = Inr miscounted_object"
  by (simp add: loads_of_def known_texts_def good_text_def miscounted_text_def ascii_def)

lemma loads_braces: "loads_of known_texts (ascii ''{}'') = Inr (VDict [])"
  by (simp add: loads_of_def known_texts_def good_text_def miscounted_text_def ascii_def)

section \<open>The code fence\<close>

text \<open>
  Claim C9. Before the JSON is parsed, \<open>extract_signing_rules_smart\<close> cuts a leading
  markdown code fence off the stripped reply of the model: a text that starts with
  \<open>```json\<close> is parsed from index 7 up to its last three characters, a text that
  starts with \<open>```\<close> from index 3 up to its last three characters, and any other
  text as it is. The last three characters go in both cases, whatever they are: the
  end of the text is not looked at.
\<close>

theorem fence_cut_before_parsing:
  assumes "request_text self (prompt d) = Inr t"
  shows "(\<exists>raw. t = strip raw) \<and>
         extract_signing_rules_smart loads self d =
           try_except
             (loads (if startswith t (ascii ''```json'') then drop 7 (take (length t - 3) t)
                     else if startswith t (ascii ''```'') then drop 3 (take (length t - 3) t)
                     else t))
             (\<lambda>e. Inr (error_result e))"
proof
  show "\<exists>raw. t = strip raw"
    using assms by (rule request_text_stripped)
next
  show "extract_signing_rules_smart loads self d =
           try_except
             (loads (if startswith t (ascii ''```json'') then drop 7 (take (length t - 3) t)
                     else if startswith t (ascii ''```'') then drop 3 (take (length t - 3) t)
                     else t))
             (\<lambda>e. Inr (error_result e))"
    unfolding strip_code_fence_eq [symmetric]
    by (simp add: extract_signing_rules_smart_def assms bind_exc_def)
qed

text \<open>
  The reply \<open>```json{} //\<close> between blanks does not end with a fence; its last three
  characters are cut all the same, and \<open>{}\<close> is parsed.
\<close>

theorem fence_cut_before_parsing_witness:
  "request_text (claude_replying fenced_text) (prompt (ascii ''doc'')) =
     Inr (ascii ''```json{} //'') \<and>
   \<not> startswith (rev (ascii ''```json{} //'')) (ascii ''```'') \<and>
   extract_signing_rules_smart (loads_of known_texts) (claude_replying fenced_text) (ascii ''doc'')
     = Inr (VDict [])"
proof -
  have h: "request_text (claude_replying fenced_text) (prompt (ascii ''doc'')) =
             Inr (ascii ''```json{} //'')"
    by (simp add: request_text_claude_replying strip_fenced_text)
  have cut: "drop 7 (take (length (ascii ''```json{} //'') - 3) (ascii ''```json{} //'')) =
               ascii ''{}''"
    by (simp add: ascii_def)
  have st: "startswith (ascii ''```json{} //'') (ascii ''```json'')"
    by (simp add: startswith_def ascii_def)
  have nd: "\<not> startswith (rev (ascii ''```json{} //'')) (ascii ''```'')"
    by (simp add: startswith_def ascii_def)
  from fence_cut_before_parsing [OF h, of "loads_of known_texts"]
  have "extract_signing_rules_smart (loads_of known_texts) (claude_replying fenced_text)
          (ascii ''doc'') = Inr (VDict [])"
    by (simp only: st cut if_True loads_braces try_except_def sum.case)
  with h nd show ?thesis by simp
qed

section \<open>Failures of the request and of the parser\<close>

text \<open>
  Claim C1. Whenever something fails inside \<open>extract_signing_rules_smart\<close>, the
  request to the model or the parsing of a reply that is not JSON, the function does
  not raise: it returns the result object with status \<open>error\<close>, a readable message
  made of the text of the exception, no sections, the counts 0 and the two empty lists
  of rules.
\<close>

theorem failure_gives_error_result:
  assumes "request_text self (prompt d) = Inl e \<or>
           (\<exists>t. request_text self (prompt d) = Inr t \<and> loads (strip_code_fence t) = Inl e)"
  shows "extract_signing_rules_smart loads self d =
           Inr (VDict [(ascii ''status'', VStr (ascii ''error'')),
                       (ascii ''message'', VStr (ascii ''Error processing document: '' @ exc_text e)),
                       (ascii ''sections_found'', VList []),
                       (ascii ''total_rules'', VInt 0),
                       (ascii ''approved_count'', VInt 0),
                       (ascii ''approved_rules'', VList []),
                       (ascii ''all_rules'', VList [])])"
  using assms by (auto simp: extract_cases error_result_def)

text \<open>
  Two failures: the request of \<open>claude_failing\<close> raises, and the reply of the other
  client is no JSON.
\<close>

lemma loads_not_json:
  "loads_of known_texts (ascii ''Sorry, I cannot help.'') =
     Inl (PyExc ''JSONDecodeError'' (ascii ''Expecting value: line 1 column 1 (char 0)''))"
  by (simp add: loads_of_def known_texts_def good_text_def miscounted_text_def ascii_def)

lemma strip_not_json: "strip (ascii ''Sorry, I cannot help.'') = ascii ''Sorry, I cannot help.''"
  by (simp add: strip_def ascii_def is_space_def)

lemma fence_not_json:
  "strip_code_fence (ascii ''Sorry, I cannot help.'') = ascii ''Sorry, I cannot help.''"
  by (simp add: strip_code_fence_def startswith_def ascii_def)

theorem failure_gives_error_result_witness:
  "request_text claude_failing (prompt (ascii ''doc'')) =
     Inl (PyExc ''APIConnectionError'' (ascii ''Connection error.'')) \<and>
   extract_signing_rules_smart (loads_of known_texts) claude_failing (ascii ''doc'') =
     Inr (VDict [(ascii ''status'', VStr (ascii ''error'')),
                 (ascii ''message'', VStr (ascii ''Error processing document: Connection error.'')),
                 (ascii ''sections_found'', VList []),
                 (ascii ''total_rules'', VInt 0),
                 (ascii ''approved_count'', VInt 0),
                 (ascii ''approved_rules'', VList []),
                 (ascii ''all_rules'', VList [])]) \<and>
   request_text (claude_replying (ascii ''Sorry, I cannot help.'')) (prompt (ascii ''doc'')) =
     Inr (ascii ''Sorry, I cannot help.'') \<and>
   loads_of known_texts (strip_code_fence (ascii ''Sorry, I cannot help.'')) =
     Inl (PyExc ''JSONDecodeError'' (ascii ''Expecting value: line 1 column 1 (char 0)'')) \<and>
   extract_signing_rules_smart (loads_of known_texts)
       (claude_replying (ascii ''Sorry, I cannot help.'')) (ascii ''doc'') =
     Inr (VDict [(ascii ''status'', VStr (ascii ''error'')),
                 (ascii ''message'',
                    VStr (ascii ''Error processing document: Expecting value: line 1 column 1 (char 0)'')),
                 (ascii ''sections_found'', VList []),
                 (ascii ''total_rules'', VInt 0),
                 (ascii ''approved_count'', VInt 0),
                 (ascii ''approved_rules'', VList []),
                 (ascii ''all_rules'', VList [])])"
proof -
  let ?d = "ascii ''doc''"
  let ?e1 = "PyExc ''APIConnectionError'' (ascii ''Connection error.'')"
  let ?e2 = "PyExc ''JSONDecodeError'' (ascii ''Expecting value: line 1 column 1 (char 0)'')"
  let ?t = "ascii ''Sorry, I cannot help.''"
  have r1: "request_text claude_failing (prompt ?d) = Inl ?e1"
    by (rule request_text_claude_failing)
  have r2: "request_text (claude_replying ?t) (prompt ?d) = Inr ?t"
    by (simp add: request_text_claude_replying strip_not_json)
  have l2: "loads_of known_texts (strip_code_fence ?t) = Inl ?e2"
    by (simp add: fence_not_json loads_not_json)
  have a: "extract_signing_rules_smart (loads_of known_texts) claude_failing ?d =
             Inr (VDict [(ascii ''status'', VStr (ascii ''error'')),
                 (ascii ''message'', VStr (ascii ''Error processing document: Connection error.'')),
                 (ascii ''sections_found'', VList []),
                 (ascii ''total_rules'', VInt 0),
                 (ascii ''approved_count'', VInt 0),
                 (ascii ''approved_rules'', VList []),
                 (ascii ''all_rules'', VList [])])"
    using failure_gives_error_result [of claude_failing ?d ?e1 "loads_of known_texts"] r1
    by (simp add: ascii_def)
  have b: "extract_signing_rules_smart (loads_of known_texts) (claude_replying ?t) ?d =
             Inr (VDict [(ascii ''status'', VStr (ascii ''error'')),
                 (ascii ''message'',
                    VStr (ascii ''Error processing document: Expecting value: line 1 column 1 (char 0)'')),
                 (ascii ''sections_found'', VList []),
                 (ascii ''total_rules'', VInt 0),
                 (ascii ''approved_count'', VInt 0),
                 (ascii ''approved_rules'', VList []),
                 (ascii ''all_rules'', VList [])])"
    using failure_gives_error_result [of "claude_replying ?t" ?d ?e2 "loads_of known_texts"] r2 l2
    by (simp add: ascii_def)
  from r1 a r2 l2 b show ?thesis by (intro conjI)
qed

section \<open>The counts of the result object\<close>

text \<open>
  Claim C2 says that in every object the function parses and returns, the count of
  approved rules is the length of the list of approved rules, and every approved rule
  is among all rules, marked as approved. The function returns what the model wrote:
  a reply with the count 2 and no approved rule is returned as it is.
\<close>

theorem miscounted_reply_counterexample:
  "extract_signing_rules_smart (loads_of known_texts) (claude_replying miscounted_text)
       (ascii ''doc'') = Inr miscounted_object \<and>
   field miscounted_object ''approved_count'' = Some (VInt 2) \<and>
   field miscounted_object ''approved_rules'' = Some (VList []) \<and>
   \<not> counts_match miscounted_object"
proof -
  have "extract_signing_rules_smart (loads_of known_texts) (claude_replying miscounted_text)
       (ascii ''doc'') = Inr miscounted_object"
    by (simp add: extract_cases request_text_claude_replying strip_miscounted_text
        fence_miscounted_text loads_miscounted_text)
  moreover have "field miscounted_object ''approved_count'' = Some (VInt 2)"
    by (simp add: miscounted_object_def field_def ascii_def)
  moreover have "field miscounted_object ''approved_rules'' = Some (VList [])"
    by (simp add: miscounted_object_def field_def ascii_def)
  moreover have "\<not> counts_match miscounted_object"
    by (simp add: counts_match_def miscounted_object_def field_def ascii_def)
  ultimately show ?thesis by (intro conjI)
qed

text \<open>
  Claim C2, as the code has it. The object parsed from a valid JSON reply is returned
  unchanged, so the returned count of approved rules is the length of the returned list
  of approved rules, and every approved rule is among all rules and marked approved,
  whenever the reply of the model has these properties itself; the function neither
  checks nor repairs them.
\<close>

theorem parsed_reply_keeps_counts:
  assumes "request_text self (prompt d) = Inr t"
    and "loads (strip_code_fence t) = Inr v"
    and "counts_match v"
  shows "(case extract_signing_rules_smart loads self d of
            Inr r \<Rightarrow> r = v \<and> counts_match r
          | Inl _ \<Rightarrow> False)"
  using assms by (simp add: extract_cases)

theorem parsed_reply_keeps_counts_witness:
  "request_text (claude_replying good_text) (prompt (ascii ''doc'')) = Inr good_text \<and>
   loads_of known_texts (strip_code_fence good_text) = Inr good_object \<and>
   counts_match good_object \<and>
   extract_signing_rules_smart (loads_of known_texts) (claude_replying good_text) (ascii ''doc'')
     = Inr good_object"
proof -
  have r: "request_text (claude_replying good_text) (prompt (ascii ''doc'')) = Inr good_text"
    by (simp add: request_text_claude_replying strip_good_text)
  have l: "loads_of known_texts (strip_code_fence good_text) = Inr good_object"
    by (simp add: fence_good_text loads_good_text)
  have c: "counts_match good_object"
    by (simp add: counts_match_def good_object_def field_def ascii_def rule_one_def)
  from parsed_reply_keeps_counts [where loads = "loads_of known_texts", OF r l c] r l c
  show ?thesis by (simp split: sum.splits)
qed

section \<open>duplicate.py: the match count and the threshold\<close>

lemma are_similar_cases:
  "are_images_similar_orb cv img1 img2 t =
     (case orb_similarity cv img1 img2 of Inl e \<Rightarrow> Inl e | Inr m \<Rightarrow> Inr (t < m))"
  by (simp add: are_images_similar_orb_def bind_exc_def)

lemma orb_similarity_none:
  assumes "detectAndCompute cv img1 = Inr des1" and "detectAndCompute cv img2 = Inr des2"
    and "des1 = None \<or> des2 = None"
  shows "orb_similarity cv img1 img2 = Inr 0"
  using assms by (auto simp: orb_similarity_def bind_exc_def split: option.splits)

lemma orb_similarity_blank: "orb_similarity blank_cv () () = Inr 0"
  by (simp add: orb_similarity_def blank_cv_def bind_exc_def)

lemma orb_similarity_matching: "orb_similarity (matching_cv n) () () = Inr (int n)"
  by (simp add: orb_similarity_def matching_cv_def bind_exc_def)

text \<open>
  Claim C3 says that for two images without detectable descriptors the match count is
  0 and \<open>are_images_similar_orb\<close> returns false for every threshold. The count is 0,
  but the function compares it with the threshold as given, and 0 is greater than a
  negative threshold.
\<close>

theorem negative_threshold_counterexample:
  "detectAndCompute blank_cv () = Inr None \<and>
   orb_similarity blank_cv () () = Inr 0 \<and>
   are_images_similar_orb blank_cv () () (- 1) = Inr True"
  by (simp add: are_similar_cases orb_similarity_blank) (simp add: blank_cv_def)

text \<open>
  Claim C3, as the code has it. When the descriptors of either image are \<open>None\<close>,
  \<open>orb_similarity\<close> returns the match count 0, and \<open>are_images_similar_orb\<close> returns
  false for every threshold that is not negative.
\<close>

theorem no_descriptors_not_similar:
  assumes "detectAndCompute cv img1 = Inr des1" and "detectAndCompute cv img2 = Inr des2"
    and "des1 = None \<or> des2 = None"
    and "0 \<le> match_threshold"
  shows "orb_similarity cv img1 img2 = Inr 0 \<and>
         are_images_similar_orb cv img1 img2 match_threshold = Inr False"
  using orb_similarity_none [OF assms(1,2,3)] assms(4) by (simp add: are_similar_cases)

theorem no_descriptors_not_similar_witness:
  "detectAndCompute blank_cv () = Inr None \<and> (0::int) \<le> 30 \<and>
   orb_similarity blank_cv () () = Inr 0 \<and>
   are_images_similar_orb blank_cv () () 30 = Inr False \<and>
   are_images_similar_orb blank_cv () () 0 = Inr False"
proof -
  have d: "detectAndCompute blank_cv () = Inr None"
    by (simp add: blank_cv_def)
  from no_descriptors_not_similar [OF d d, of 30] no_descriptors_not_similar [OF d d, of 0] d
  show ?thesis by simp
qed

text \<open>
  Claim C10. For all images and every threshold, \<open>are_images_similar_orb\<close> returns
  true exactly when \<open>orb_similarity\<close> returns a count strictly greater than the
  threshold; a count equal to the threshold gives false. When \<open>orb_similarity\<close>
  raises, so does \<open>are_images_similar_orb\<close>.
\<close>

theorem similar_iff_above_threshold:
  "are_images_similar_orb cv img1 img2 t =
     (case orb_similarity cv img1 img2 of Inl e \<Rightarrow> Inl e | Inr m \<Rightarrow> Inr (t < m)) \<and>
   (are_images_similar_orb cv img1 img2 t = Inr True \<longleftrightarrow>
      (\<exists>m. orb_similarity cv img1 img2 = Inr m \<and> t < m)) \<and>
   (orb_similarity cv img1 img2 = Inr t \<longrightarrow>
      are_images_similar_orb cv img1 img2 t = Inr False)"
  by (auto simp: are_similar_cases split: sum.splits)

theorem similar_iff_above_threshold_witness:
  "orb_similarity (matching_cv 30) () () = Inr 30 \<and>
   are_images_similar_orb (matching_cv 30) () () 30 = Inr False \<and>
   are_images_similar_orb (matching_cv 30) () () 29 = Inr True"
proof -
  have m: "orb_similarity (matching_cv 30) () () = Inr 30"
    using orb_similarity_matching [of 30] by simp
  from similar_iff_above_threshold [of "matching_cv 30" "()" "()" 30]
    similar_iff_above_threshold [of "matching_cv 30" "()" "()" 29] m
  show ?thesis by simp
qed

section \<open>Writing and raising\<close>

lemma bind_run_emit: "bind_run (emit x) f = (case f () of (out, r) \<Rightarrow> (x # out, r))"
  by (simp add: bind_run_def emit_def)

lemma bind_run_eval_Inr [simp]: "bind_run (eval (Inr v)) f = f v"
  by (simp add: bind_run_def eval_def split: prod.splits)

lemma bind_run_eval_Inl [simp]: "bind_run (eval (Inl e)) f = ([], Inl e)"
  by (simp add: bind_run_def eval_def)

lemma bind_run_done: "bind_run (out, Inr x) f = (out @ fst (f x), snd (f x))"
  by (simp add: bind_run_def split: prod.splits)

lemma bind_run_raised [simp]: "bind_run (out, Inl e) f = (out, Inl e)"
  by (simp add: bind_run_def)

lemma for_each_all_done:
  "(\<And>x. x \<in> set xs \<Longrightarrow> f x = (g x, Inr ())) \<Longrightarrow> for_each xs f = (concat (map g xs), Inr ())"
  by (induction xs) (simp_all add: bind_run_done)

section \<open>donut.py: the pipeline\<close>

lemma questions_list:
  "questions = [ascii ''What is the print full name?'', ascii ''What is the print surname?'',
                ascii ''What is the official position?'']"
  by (simp add: questions_def)


text \<open>Two pages, with the names Ada and Bob.\<close>

lemma pdf_to_images_canned:
  "pdf_to_images canned_donut path = Inr [ascii ''Ada'', ascii ''Bob'']"
  by (simp add: pdf_to_images_def canned_donut_def)

lemma ask_canned:
  "\<forall>img \<in> set [ascii ''Ada'', ascii ''Bob'']. \<forall>q \<in> set questions.
     ask_question canned_donut img q = Inr img"
  by (simp add: questions_def ask_question_def canned_donut_def bind_exc_def index_list_def
      index_seq_def strip_def is_space_def startswith_def ascii_def)


section \<open>gemini\_app.py: a PDF that cannot be read\<close>

lemma concat_pages_raises:
  "Inl e \<in> set pages \<Longrightarrow> \<exists>e'. Inl e' \<in> set pages \<and> concat_pages acc pages = Inl e'"
proof (induction pages arbitrary: acc)
  case Nil
  then show ?case by simp
next
  case (Cons page pages)
  show ?case
  proof (cases page)
    case (Inl e')
    then show ?thesis by (auto simp: bind_exc_def)
  next
    case (Inr page_text)
    with Cons.prems have "Inl e \<in> set pages" by auto
    from Cons.IH [OF this, of "acc @ page_text @ [10]"] Inr
    show ?thesis by (auto simp: bind_exc_def)
  qed
qed

lemma extract_text_raised:
  "bind_exc (reader uploaded_file) (\<lambda>pages. concat_pages [] pages) = Inl e \<Longrightarrow>
   extract_text_from_pdf reader uploaded_file =
     ([St_error [Lit (ascii ''Error reading PDF: '' @ exc_text e)]], Inr [])"
  by (simp add: extract_text_from_pdf_def try_run_def eval_def bind_run_def emit_def)

lemma extract_text_read:
  "bind_exc (reader uploaded_file) (\<lambda>pages. concat_pages [] pages) = Inr text \<Longrightarrow>
   extract_text_from_pdf reader uploaded_file = ([], Inr text)"
  by (simp add: extract_text_from_pdf_def try_run_def eval_def)

text \<open>
  Claim C6. On every input on which reading the PDF or extracting the text of a page
  raises, \<open>extract_text_from_pdf\<close> catches the exception, shows the error message
  \<open>Error reading PDF:\<close> with the text of the exception that was raised, and returns
  the empty string instead of raising.
\<close>

theorem pdf_failure_gives_message:
  assumes "reader uploaded_file = Inl e \<or>
           (\<exists>pages. reader uploaded_file = Inr pages \<and> Inl e \<in> set pages)"
  shows "\<exists>e'. (reader uploaded_file = Inl e' \<or>
               (\<exists>pages. reader uploaded_file = Inr pages \<and> Inl e' \<in> set pages)) \<and>
              extract_text_from_pdf reader uploaded_file =
                ([St_error [Lit (ascii ''Error reading PDF: '' @ exc_text e')]], Inr [])"
  using assms
proof
  assume r: "reader uploaded_file = Inl e"
  then have "bind_exc (reader uploaded_file) (\<lambda>pages. concat_pages [] pages) = Inl e"
    by (simp add: bind_exc_def)
  from extract_text_raised [of reader uploaded_file e, OF this] r show ?thesis by blast
next
  assume "\<exists>pages. reader uploaded_file = Inr pages \<and> Inl e \<in> set pages"
  then obtain pages where r: "reader uploaded_file = Inr pages" and "Inl e \<in> set pages"
    by blast
  from concat_pages_raises [OF this(2), of "[]"]
  obtain e' where e': "Inl e' \<in> set pages" "concat_pages [] pages = Inl e'"
    by blast
  with r have "bind_exc (reader uploaded_file) (\<lambda>pages. concat_pages [] pages) = Inl e'"
    by (simp add: bind_exc_def)
  from extract_text_raised [of reader uploaded_file e', OF this] r e'(1) show ?thesis by blast
qed

theorem pdf_failure_gives_message_witness:
  "unreadable [] = Inl (PyExc ''PdfReadError'' (ascii ''EOF marker not found'')) \<and>
   extract_text_from_pdf unreadable [] =
     ([St_error [Lit (ascii ''Error reading PDF: EOF marker not found'')]], Inr [])"
proof -
  have u: "unreadable [] = Inl (PyExc ''PdfReadError'' (ascii ''EOF marker not found''))"
    by (simp add: unreadable_def)
  from pdf_failure_gives_message [of unreadable "[]", OF disjI1, OF u] u
  show ?thesis by (auto simp: ascii_def)
qed

section \<open>gemini\_app.py: the page viewer stays on a page\<close>

lemma display_pdf_pages_state:
  assumes "reader pdf_file = Inr pages"
  shows "fst (display_pdf_pages reader clicked pdf_file st) =
           st\<lparr>current_page :=
                Some (let page = (case current_page st of None \<Rightarrow> 0 | Some p \<Rightarrow> p)
                      in if clicked = ClickPrevious \<and> page \<noteq> 0 then page - 1
                         else if clicked = ClickNext \<and> page < int (length pages) - 1 then page + 1
                         else page)\<rparr>"
  by (auto simp: display_pdf_pages_def display_pdf_body_def assms Let_def st_button_def
      split: sum.splits)

lemma display_pdf_pages_outcome:
  assumes "reader pdf_file = Inr pages"
  shows "snd (snd (display_pdf_pages reader clicked pdf_file st)) = Rerun \<longleftrightarrow>
           (let page = (case current_page st of None \<Rightarrow> 0 | Some p \<Rightarrow> p)
            in clicked = ClickPrevious \<and> page \<noteq> 0 \<or>
               clicked = ClickNext \<and> page < int (length pages) - 1)"
  by (auto simp: display_pdf_pages_def display_pdf_body_def assms Let_def st_button_def
      split: sum.splits)

lemma display_pdf_pages_unreadable:
  assumes "reader pdf_file = Inl e"
  shows "display_pdf_pages reader clicked pdf_file st =
           (st, [St_error [Lit (ascii ''Error displaying PDF: '' @ exc_text e)]], Returned 0)"
  by (simp add: display_pdf_pages_def display_pdf_body_def assms)

lemma viewing_in_range:
  assumes "reader pdf_file = Inr pages" and "1 \<le> length pages"
    and "viewing reader pdf_file st"
  shows "\<forall>q. current_page st = Some q \<longrightarrow> 0 \<le> q \<and> q \<le> int (length pages) - 1"
  using assms(3)
proof (induction rule: viewing.induct)
  case (fresh st)
  then show ?case by simp
next
  case (run st clicked st' out r)
  from run.hyps(2) have "st' = fst (display_pdf_pages reader clicked pdf_file st)"
    by simp
  with display_pdf_pages_state [of reader pdf_file pages clicked st, OF assms(1)] run.IH assms(2)
  show ?case
    by (cases "current_page st") (auto simp: Let_def split: if_splits)
next
  case (other st x)
  then show ?case by simp
qed


text \<open>The first run of the viewer on a PDF of two pages, in a fresh session.\<close>

lemma two_pages_shown:
  "display_pdf_pages pages_of NoClick [ascii ''one'', ascii ''two'']
       \<lparr>current_page = None, extraction_results = None\<rparr> =
     (\<lparr>current_page = Some 0, extraction_results = None\<rparr>,
      [St_column 1 [St_button ([9664] @ ascii '' Previous'') True],
       St_column 2 [St_write [Lit (ascii ''Page ''), Fmt (VInt 1), Lit (ascii '' of ''),
                              Fmt (VInt 2)]],
       St_column 3 [St_button (ascii ''Next '' @ [9654]) False],
       St_text_area (ascii ''Document Content (Current Page):'') (ascii ''one'')],
      Returned 2)"
  by (simp add: display_pdf_pages_def display_pdf_body_def pages_of_def Let_def st_button_def
      index_pages_def index_seq_def bind_exc_def)


section \<open>gemini\_app.py: what the renderer reads\<close>

lemma snd_bind_run:
  "snd (bind_run m f) = (case snd m of Inl e \<Rightarrow> Inl e | Inr x \<Rightarrow> snd (f x))"
  by (simp add: bind_run_def split: prod.splits sum.splits)

lemma snd_eval: "snd (eval m) = m"
  by (simp add: eval_def)

lemma snd_emit: "snd (emit x) = Inr ()"
  by (simp add: emit_def)

lemma snd_inside: "snd (inside box m) = snd m"
  by (simp add: inside_def split: prod.splits)

lemma snd_for_each:
  "(\<And>x. x \<in> set xs \<Longrightarrow> snd (f x) = Inr ()) \<Longrightarrow> snd (for_each xs f) = Inr ()"
  by (induction xs) (simp_all add: snd_bind_run)

lemmas snd_run = snd_bind_run snd_eval snd_emit snd_inside

lemma subscript_field: "field obj key = Some v \<Longrightarrow> subscript obj key = Inr v"
  by (cases obj) (simp_all add: field_def)

lemma get_or_field: "field obj key = Some v \<Longrightarrow> get_or obj key d = Inr v"
  by (cases obj) (simp_all add: field_def)

lemma get_or_dict: "field obj key' = Some v \<Longrightarrow> \<exists>w. get_or obj key d = Inr w"
  by (cases obj) (simp_all add: field_def)

lemma show_section_returns: "is_section s \<Longrightarrow> snd (show_section s) = Inr ()"
proof -
  assume "is_section s"
  then obtain name where n: "field s ''section_name'' = Some name"
    by (auto simp: is_section_def)
  from get_or_dict [OF n] obtain w where "get_or s ''section_number'' (VStr []) = Inr w"
    by blast
  with subscript_field [OF n] show ?thesis
    by (simp add: show_section_def snd_run)
qed

lemma is_rule_fields:
  assumes "is_rule r"
  obtains number rtext box approved where
    "field r ''rule_number'' = Some number" "field r ''rule_text'' = Some (VStr rtext)"
    "field r ''checkbox_content'' = Some box" "field r ''is_approved'' = Some approved"
  using assms by (auto simp: is_rule_def split: option.splits pyval.splits)

lemma show_approved_rule_returns: "is_rule r \<Longrightarrow> snd (show_approved_rule r) = Inr ()"
proof -
  assume "is_rule r"
  then obtain number rtext box approved where
    f: "field r ''rule_number'' = Some number" "field r ''rule_text'' = Some (VStr rtext)"
    "field r ''checkbox_content'' = Some box" "field r ''is_approved'' = Some approved"
    by (rule is_rule_fields)
  from get_or_dict [OF f(1)] obtain w where "get_or r ''section'' (VStr (ascii ''N/A'')) = Inr w"
    by blast
  with f [THEN subscript_field] show ?thesis
    by (simp add: show_approved_rule_def snd_run)
qed

lemma show_rule_summary_returns: "is_rule r \<Longrightarrow> snd (show_rule_summary r) = Inr ()"
proof -
  assume "is_rule r"
  then obtain number rtext box approved where
    f: "field r ''rule_number'' = Some number" "field r ''rule_text'' = Some (VStr rtext)"
    "field r ''checkbox_content'' = Some box" "field r ''is_approved'' = Some approved"
    by (rule is_rule_fields)
  from get_or_dict [OF f(1)] obtain w where "get_or r ''section'' (VStr (ascii ''N/A'')) = Inr w"
    by blast
  with f [THEN subscript_field] show ?thesis
    by (simp add: show_rule_summary_def snd_run Let_def)
qed

lemma list_field_obtain:
  assumes "list_field ok r key"
  obtains xs where "field r key = Some (VList xs)" "\<forall>x \<in> set xs. ok x"
  using assms by (auto simp: list_field_def list_all_iff split: option.splits pyval.splits)

lemma has_fields_renders:
  assumes "has_fields r"
  shows "snd (display_signing_rules r) = Inr ()"
proof -
  from assms obtain status message total approved where
    f: "field r ''status'' = Some status" "field r ''message'' = Some message"
       "field r ''total_rules'' = Some total" "field r ''approved_count'' = Some approved"
    by (auto simp: has_fields_def)
  from assms obtain sections where
    s: "field r ''sections_found'' = Some (VList sections)" "\<forall>x \<in> set sections. is_section x"
    by (auto simp: has_fields_def elim: list_field_obtain)
  from assms obtain approved_rules where
    a: "field r ''approved_rules'' = Some (VList approved_rules)"
       "\<forall>x \<in> set approved_rules. is_rule x"
    by (auto simp: has_fields_def elim: list_field_obtain)
  from assms obtain all_rules where
    e: "field r ''all_rules'' = Some (VList all_rules)" "\<forall>x \<in> set all_rules. is_rule x"
    by (auto simp: has_fields_def elim: list_field_obtain)
  have 1: "snd (for_each sections show_section) = Inr ()"
    using s(2) by (intro snd_for_each show_section_returns) simp
  have 2: "snd (for_each approved_rules show_approved_rule) = Inr ()"
    using a(2) by (intro snd_for_each show_approved_rule_returns) simp
  have 3: "snd (for_each all_rules show_rule_summary) = Inr ()"
    using e(2) by (intro snd_for_each show_rule_summary_returns) simp
  show ?thesis
    by (simp add: display_signing_rules_def snd_run f [THEN subscript_field]
        s(1) [THEN subscript_field] a(1) [THEN subscript_field] e(1) [THEN subscript_field]
        1 2 3)
qed

lemma has_fields_error_result: "has_fields (error_result e)"
  by (simp add: has_fields_def error_result_def list_field_def field_def ascii_def)

lemma display_error_result:
  "display_signing_rules (error_result e) =
     ([St_error [Lit (ascii ''Error: ''),
                 Fmt (VStr (ascii ''Error processing document: '' @ exc_text e))]], Inr ())"
  by (simp add: display_signing_rules_def error_result_def bind_run_def eval_def emit_def ascii_def)

lemma display_empty_object:
  "display_signing_rules (VDict []) = ([], Inl (PyExc ''KeyError'' (quoted ''status'')))"
  by (simp add: display_signing_rules_def bind_run_def eval_def)

lemma strip_braces: "strip (ascii ''{}'') = ascii ''{}''"
  by (simp add: strip_def ascii_def is_space_def)

lemma fence_braces: "strip_code_fence (ascii ''{}'') = ascii ''{}''"
  by (simp add: strip_code_fence_def startswith_def ascii_def)



lemma has_fields_good_object: "has_fields good_object"
  by (simp add: has_fields_def list_field_def is_rule_def is_section_def good_object_def
      field_def ascii_def rule_one_def)


section \<open>Which calls are guarded\<close>

lemma extract_never_raises: "\<exists>r. extract_signing_rules_smart loads self d = Inr r"
  by (simp add: extract_cases split: sum.splits)

lemma extract_text_never_raises:
  "\<exists>out t. extract_text_from_pdf reader uploaded_file = (out, Inr t)"
proof (cases "bind_exc (reader uploaded_file) (\<lambda>pages. concat_pages [] pages)")
  case (Inl e)
  from extract_text_raised [of reader uploaded_file e, OF this] show ?thesis by blast
next
  case (Inr t)
  from extract_text_read [of reader uploaded_file t, OF this] show ?thesis by blast
qed

lemma extract_clicked_never_raises:
  "\<exists>st' out. extract_clicked sv api_key prov uploaded_file st = (st', out, Inr ())"
  by (auto simp: extract_clicked_def split: prod.splits sum.splits)

lemma extract_clicked_raised:
  "api_key \<noteq> [] \<Longrightarrow> extract_clicked_body sv api_key prov uploaded_file st = (st', out, Inl e) \<Longrightarrow>
   extract_clicked sv api_key prov uploaded_file st =
     (st', out @ [St_error [Lit (ascii ''Error processing document: '' @ exc_text e)]], Inr ())"
  by (simp add: extract_clicked_def)

lemma conversion_failure_propagates:
  "convert_from_path lib pdf_path 200 = Inl e \<Longrightarrow>
   extract_signatory_info lib pdf_path = ([], Inl e)"
  by (simp add: extract_signatory_info_def pdf_to_images_def)

lemma inference_failure_propagates:
  "processor_call lib img = Inr inputs \<Longrightarrow>
   tokenizer lib (ascii ''<s_docvqa><s_question>'' @ q @ ascii ''</s_question><s_answer>'') = Inr ids \<Longrightarrow>
   generate lib inputs ids = Inl e \<Longrightarrow>
   ask_question lib img q = Inl e"
  by (simp add: ask_question_def bind_exc_def Let_def)

lemma detection_failure_propagates:
  "detectAndCompute cv img1 = Inl e \<Longrightarrow> are_images_similar_orb cv img1 img2 t = Inl e"
  by (simp add: are_images_similar_orb_def orb_similarity_def bind_exc_def)

lemma ask_broken:
  "ask_question broken_donut (ascii ''Ada'') (ascii ''What is the print full name?'') =
     Inl (PyExc ''RuntimeError'' (ascii ''out of memory''))"
  by (simp add: ask_question_def broken_donut_def canned_donut_def bind_exc_def)

lemma first_question_failure:
  assumes "pdf_to_images lib pdf_path = Inr (img # images)"
    and "ask_question lib img (ascii ''What is the print full name?'') = Inl e"
  shows "extract_signatory_info lib pdf_path = ([[10, 128196] @ ascii '' Page 1''], Inl e)"
proof -
  have "for_each questions (\<lambda>q. bind_run (eval (ask_question lib img q))
          (\<lambda>answer. emit (q @ ascii '' '' @ [8594] @ ascii '' '' @ answer))) = ([], Inl e)"
    by (simp add: questions_def assms(2))
  then show ?thesis
    by (simp add: extract_signatory_info_def assms(1) bind_run_emit ascii_def)
qed

lemma pdf_to_images_broken:
  "pdf_to_images broken_donut path = Inr [ascii ''Ada'', ascii ''Bob'']"
  by (simp add: pdf_to_images_def broken_donut_def canned_donut_def)

text \<open>
  Claim C4 says that in all three scripts every external call is inside a broad
  exception guard, so that no failure of such a call leaves the script as an exception.
  \<open>donut.py\<close> has no handler at all: when the model fails on the first question, the
  exception leaves \<open>ask_question\<close> and then \<open>extract_signatory_info\<close>, after the
  header of the first page has been printed.
\<close>

theorem unguarded_inference_counterexample:
  "ask_question broken_donut (ascii ''Ada'') (ascii ''What is the print full name?'') =
     Inl (PyExc ''RuntimeError'' (ascii ''out of memory'')) \<and>
   extract_signatory_info broken_donut (ascii ''/content/regex_practise.docx'') =
     ([[10, 128196] @ ascii '' Page 1''], Inl (PyExc ''RuntimeError'' (ascii ''out of memory'')))"
  using ask_broken first_question_failure [OF pdf_to_images_broken ask_broken]
  by (intro conjI)


text \<open>
  Claim C4, as the code has it. In \<open>gemini_app.py\<close> every external call (reading the
  PDF, making the client, the request to the model, parsing the JSON) is inside a broad
  exception guard: \<open>extract_signing_rules_smart\<close>, \<open>extract_text_from_pdf\<close> and the
  handler of the extraction button never raise, and a failure becomes a readable
  message, in the result object or on the page. \<open>donut.py\<close> and \<open>duplicate.py\<close>
  have no guard: a failure of the PDF conversion, of the model or of the descriptor
  computation is raised to the caller.
\<close>

theorem gemini_app_guards_its_calls:
  "(\<exists>r. extract_signing_rules_smart loads self d = Inr r) \<and>
   (\<forall>e. request_text self (prompt d) = Inl e \<or>
        (\<exists>t. request_text self (prompt d) = Inr t \<and> loads (strip_code_fence t) = Inl e) \<longrightarrow>
        extract_signing_rules_smart loads self d = Inr (error_result e)) \<and>
   (\<exists>out t. extract_text_from_pdf reader uploaded_file = (out, Inr t)) \<and>
   (\<forall>e. reader uploaded_file = Inl e \<longrightarrow>
        extract_text_from_pdf reader uploaded_file =
          ([St_error [Lit (ascii ''Error reading PDF: '' @ exc_text e)]], Inr []) \<and>
        display_pdf_pages reader clicked uploaded_file st =
          (st, [St_error [Lit (ascii ''Error displaying PDF: '' @ exc_text e)]], Returned 0)) \<and>
   (\<exists>st' out. extract_clicked sv api_key prov uploaded_file st = (st', out, Inr ())) \<and>
   (\<forall>e st' out. api_key \<noteq> [] \<and>
        extract_clicked_body sv api_key prov uploaded_file st = (st', out, Inl e) \<longrightarrow>
        extract_clicked sv api_key prov uploaded_file st =
          (st', out @ [St_error [Lit (ascii ''Error processing document: '' @ exc_text e)]],
           Inr ())) \<and>
   (\<forall>e. convert_from_path lib pdf_path 200 = Inl e \<longrightarrow>
        extract_signatory_info lib pdf_path = ([], Inl e)) \<and>
   (\<forall>inputs ids e. processor_call lib img = Inr inputs \<and>
        tokenizer lib (ascii ''<s_docvqa><s_question>'' @ q @ ascii ''</s_question><s_answer>'')
          = Inr ids \<and>
        generate lib inputs ids = Inl e \<longrightarrow>
        ask_question lib img q = Inl e) \<and>
   (\<forall>e. detectAndCompute cv img1 = Inl e \<longrightarrow>
        are_images_similar_orb cv img1 img2 match_threshold = Inl e)"
proof (intro conjI allI impI)
  show "\<exists>r. extract_signing_rules_smart loads self d = Inr r"
    by (rule extract_never_raises)
  show "extract_signing_rules_smart loads self d = Inr (error_result e)"
    if "request_text self (prompt d) = Inl e \<or>
        (\<exists>t. request_text self (prompt d) = Inr t \<and> loads (strip_code_fence t) = Inl e)" for e
    using that by (auto simp: extract_cases)
  show "\<exists>out t. extract_text_from_pdf reader uploaded_file = (out, Inr t)"
    by (rule extract_text_never_raises)
  show "extract_text_from_pdf reader uploaded_file =
          ([St_error [Lit (ascii ''Error reading PDF: '' @ exc_text e)]], Inr [])"
    if "reader uploaded_file = Inl e" for e
    using extract_text_raised [of reader uploaded_file e] that by (simp add: bind_exc_def)
  show "display_pdf_pages reader clicked uploaded_file st =
          (st, [St_error [Lit (ascii ''Error displaying PDF: '' @ exc_text e)]], Returned 0)"
    if "reader uploaded_file = Inl e" for e
    using that by (rule display_pdf_pages_unreadable)
  show "\<exists>st' out. extract_clicked sv api_key prov uploaded_file st = (st', out, Inr ())"
    by (rule extract_clicked_never_raises)
  show "extract_clicked sv api_key prov uploaded_file st =
          (st', out @ [St_error [Lit (ascii ''Error processing document: '' @ exc_text e)]],
           Inr ())"
    if "api_key \<noteq> [] \<and> extract_clicked_body sv api_key prov uploaded_file st = (st', out, Inl e)"
    for e st' out
    using that by (simp add: extract_clicked_raised)
  show "extract_signatory_info lib pdf_path = ([], Inl e)"
    if "convert_from_path lib pdf_path 200 = Inl e" for e
    using that by (rule conversion_failure_propagates)
  show "ask_question lib img q = Inl e"
    if "processor_call lib img = Inr inputs \<and>
        tokenizer lib (ascii ''<s_docvqa><s_question>'' @ q @ ascii ''</s_question><s_answer>'')
          = Inr ids \<and>
        generate lib inputs ids = Inl e" for inputs ids e
    using that by (auto intro: inference_failure_propagates)
  show "are_images_similar_orb cv img1 img2 match_threshold = Inl e"
    if "detectAndCompute cv img1 = Inl e" for e
    using that by (rule detection_failure_propagates)
qed

text \<open>One failing call for each part of the statement.\<close>

lemma clicked_body_offline:
  "extract_clicked_body offline_services (ascii ''key'') (ascii ''claude'') []
       \<lparr>current_page = None, extraction_results = None\<rparr> =
     (\<lparr>current_page = None, extraction_results = None\<rparr>, [],
      Inl (PyExc ''AnthropicError'' (ascii ''The api_key option must be set'')))"
  by (simp add: extract_clicked_body_def DocumentProcessor_init_def offline_services_def
      bind_exc_def)

theorem gemini_app_guards_its_calls_witness:
  "request_text claude_failing (prompt (ascii ''doc'')) =
     Inl (PyExc ''APIConnectionError'' (ascii ''Connection error.'')) \<and>
   extract_signing_rules_smart (loads_of known_texts) claude_failing (ascii ''doc'') =
     Inr (error_result (PyExc ''APIConnectionError'' (ascii ''Connection error.''))) \<and>
   unreadable [] = Inl (PyExc ''PdfReadError'' (ascii ''EOF marker not found'')) \<and>
   extract_text_from_pdf unreadable [] =
     ([St_error [Lit (ascii ''Error reading PDF: EOF marker not found'')]], Inr []) \<and>
   display_pdf_pages unreadable NoClick [] \<lparr>current_page = None, extraction_results = None\<rparr> =
     (\<lparr>current_page = None, extraction_results = None\<rparr>,
      [St_error [Lit (ascii ''Error displaying PDF: EOF marker not found'')]], Returned 0) \<and>
   ascii ''key'' \<noteq> [] \<and>
   extract_clicked offline_services (ascii ''key'') (ascii ''claude'') []
       \<lparr>current_page = None, extraction_results = None\<rparr> =
     (\<lparr>current_page = None, extraction_results = None\<rparr>,
      [St_error [Lit (ascii ''Error processing document: The api_key option must be set'')]],
      Inr ()) \<and>
   convert_from_path unconvertible_donut (ascii ''/content/regex_practise.docx'') 200 =
     Inl (PyExc ''PDFPageCountError'' (ascii ''Unable to get page count.'')) \<and>
   extract_signatory_info unconvertible_donut (ascii ''/content/regex_practise.docx'') =
     ([], Inl (PyExc ''PDFPageCountError'' (ascii ''Unable to get page count.''))) \<and>
   generate broken_donut (ascii ''Ada'')
       (ascii ''<s_docvqa><s_question>What is the print surname?</s_question><s_answer>'') =
     Inl (PyExc ''RuntimeError'' (ascii ''out of memory'')) \<and>
   ask_question broken_donut (ascii ''Ada'') (ascii ''What is the print surname?'') =
     Inl (PyExc ''RuntimeError'' (ascii ''out of memory'')) \<and>
   detectAndCompute failing_cv () = Inl (PyExc ''error'' (ascii ''Incorrect type of input image'')) \<and>
   are_images_similar_orb failing_cv () () 30 =
     Inl (PyExc ''error'' (ascii ''Incorrect type of input image''))"
proof -
  let ?st = "\<lparr>current_page = None, extraction_results = None\<rparr>"
  note g = gemini_app_guards_its_calls [where loads = "loads_of known_texts"
      and self = claude_failing and d = "ascii ''doc''" and reader = unreadable
      and uploaded_file = "[]" and clicked = NoClick and st = ?st and sv = offline_services
      and api_key = "ascii ''key''" and prov = "ascii ''claude''" and lib = unconvertible_donut
      and pdf_path = "ascii ''/content/regex_practise.docx''" and cv = failing_cv
      and ?img1.0 = "()" and ?img2.0 = "()" and match_threshold = 30
      and img = "ascii ''Ada''" and q = "ascii ''What is the print surname?''"]
  note h = gemini_app_guards_its_calls [where loads = "loads_of known_texts"
      and self = claude_failing and d = "ascii ''doc''" and reader = unreadable
      and uploaded_file = "[]" and clicked = NoClick and st = ?st and sv = offline_services
      and api_key = "ascii ''key''" and prov = "ascii ''claude''" and lib = broken_donut
      and pdf_path = "ascii ''/content/regex_practise.docx''" and cv = failing_cv
      and ?img1.0 = "()" and ?img2.0 = "()" and match_threshold = 30
      and img = "ascii ''Ada''" and q = "ascii ''What is the print surname?''"]
  have 1: "request_text claude_failing (prompt (ascii ''doc'')) =
     Inl (PyExc ''APIConnectionError'' (ascii ''Connection error.''))"
    by (rule request_text_claude_failing)
  have 2: "unreadable [] = Inl (PyExc ''PdfReadError'' (ascii ''EOF marker not found''))"
    by (simp add: unreadable_def)
  have 3: "ascii ''key'' \<noteq> []"
    by (simp add: ascii_def)
  have 4: "convert_from_path unconvertible_donut (ascii ''/content/regex_practise.docx'') 200 =
     Inl (PyExc ''PDFPageCountError'' (ascii ''Unable to get page count.''))"
    by (simp add: unconvertible_donut_def canned_donut_def)
  have 5: "generate broken_donut (ascii ''Ada'')
       (ascii ''<s_docvqa><s_question>What is the print surname?</s_question><s_answer>'') =
     Inl (PyExc ''RuntimeError'' (ascii ''out of memory''))"
    by (simp add: broken_donut_def)
  have pc: "processor_call broken_donut (ascii ''Ada'') = Inr (ascii ''Ada'')"
    by (simp add: broken_donut_def canned_donut_def)
  have tk: "tokenizer broken_donut (ascii ''<s_docvqa><s_question>''
      @ ascii ''What is the print surname?'' @ ascii ''</s_question><s_answer>'') =
      Inr (ascii ''<s_docvqa><s_question>What is the print surname?</s_question><s_answer>'')"
    by (simp add: broken_donut_def canned_donut_def ascii_def)
  have 6: "detectAndCompute failing_cv () =
      Inl (PyExc ''error'' (ascii ''Incorrect type of input image''))"
    by (simp add: failing_cv_def)
  have a: "extract_signing_rules_smart (loads_of known_texts) claude_failing (ascii ''doc'') =
     Inr (error_result (PyExc ''APIConnectionError'' (ascii ''Connection error.'')))"
    using g 1 by blast
  have b: "extract_text_from_pdf unreadable [] =
     ([St_error [Lit (ascii ''Error reading PDF: EOF marker not found'')]], Inr [])"
    using g 2 by (auto simp: ascii_def)
  have c: "display_pdf_pages unreadable NoClick [] ?st =
     (?st, [St_error [Lit (ascii ''Error displaying PDF: EOF marker not found'')]], Returned 0)"
    using g 2 by (auto simp: ascii_def)
  have d: "extract_clicked offline_services (ascii ''key'') (ascii ''claude'') [] ?st =
     (?st, [St_error [Lit (ascii ''Error processing document: The api_key option must be set'')]],
      Inr ())"
    using g 3 clicked_body_offline by (auto simp: ascii_def)
  have e: "extract_signatory_info unconvertible_donut (ascii ''/content/regex_practise.docx'') =
     ([], Inl (PyExc ''PDFPageCountError'' (ascii ''Unable to get page count.'')))"
    using g 4 by blast
  have f: "ask_question broken_donut (ascii ''Ada'') (ascii ''What is the print surname?'') =
     Inl (PyExc ''RuntimeError'' (ascii ''out of memory''))"
    using h 5 pc tk by blast
  have i: "are_images_similar_orb failing_cv () () 30 =
     Inl (PyExc ''error'' (ascii ''Incorrect type of input image''))"
    using g 6 by blast
  from 1 a 2 b c 3 d 4 e 5 f 6 i show ?thesis by (intro conjI)
qed

end
